theory Spec2Isabelle
  imports Main
begin

section \<open>The rate-limiting work queue of util/workqueue/rate_limiting_queue.go\<close>

text \<open>
  The file defines one adapter, \<open>rateLimitingType\<close>, that embeds a delaying queue and
  holds a rate limiter. Both collaborators are Go interface values: a table of methods
  bound to an object. A method of an object is modelled as a function on the state of
  that object, and the objects the adapter refers to are kept side by side in a
  \<open>world\<close> record, so that each call of the source is one explicit state change.
  The queue and the limiter are two separate objects, each owned by the adapter: a
  method of one does not reach the state of the other.
\<close>

subsection \<open>The collaborators\<close>

text \<open>\<open>time.Duration\<close>: a signed count of nanoseconds. The adapter only passes it on.\<close>

type_synonym duration = int

text \<open>
  Modelled from the spec: the \<open>RateLimiter\<close> interface, which the source names but does
  not declare. It has the three methods the adapter calls: \<open>When(item)\<close> returns a
  duration and may update the limiter (it is where a strategy counts a failure),
  \<open>Forget(item)\<close> updates the limiter, \<open>NumRequeues(item)\<close> is a query that reports an
  \<open>int\<close>. The type \<open>'r\<close> is the state of the limiter object, left to the strategy.
\<close>

record ('a, 'r) RateLimiter =
  rl_When :: "'a \<Rightarrow> 'r \<Rightarrow> duration \<times> 'r"
  rl_Forget :: "'a \<Rightarrow> 'r \<Rightarrow> 'r"
  rl_NumRequeues :: "'a \<Rightarrow> 'r \<Rightarrow> int"

text \<open>
  Modelled from the spec: the \<open>DelayingInterface\<close> interface, which the source embeds but
  does not declare: the base queue methods and \<open>AddAfter\<close>. \<open>Get\<close> returns an item and
  the shutdown flag, or does not return while it has nothing to hand out (\<open>None\<close>).
  \<open>Len\<close> and \<open>ShuttingDown\<close> are queries. The type \<open>'d\<close> is the state of the queue object.
\<close>

record ('a, 'd) DelayingInterface =
  di_Add :: "'a \<Rightarrow> 'd \<Rightarrow> 'd"
  di_Len :: "'d \<Rightarrow> int"
  di_Get :: "'d \<Rightarrow> (('a \<times> bool) \<times> 'd) option"
  di_Done :: "'a \<Rightarrow> 'd \<Rightarrow> 'd"
  di_ShutDown :: "'d \<Rightarrow> 'd"
  di_ShutDownWithDrain :: "'d \<Rightarrow> 'd"
  di_ShuttingDown :: "'d \<Rightarrow> bool"
  di_AddAfter :: "'a \<Rightarrow> duration \<Rightarrow> 'd \<Rightarrow> 'd"

subsection \<open>The adapter\<close>

text \<open>
  \<open>type rateLimitingType[T] struct { DelayingInterface[T]; rateLimiter RateLimiter[T] }\<close>:
  the embedded queue and the limiter. The struct has no other field.
\<close>

record ('a, 'd, 'r) rateLimitingType =
  DelayingInterface :: "('a, 'd) DelayingInterface"
  rateLimiter :: "('a, 'r) RateLimiter"

text \<open>The state of the two objects the adapter refers to.\<close>

record ('d, 'r) world =
  dq_state :: 'd
  rl_state :: 'r

text \<open>
  \<open>q.DelayingInterface.AddAfter(item, q.rateLimiter.When(item))\<close>: the argument is
  evaluated first, so \<open>When\<close> runs on the limiter and \<open>AddAfter\<close> then runs on the queue
  with the duration it returned.
\<close>

definition AddRateLimited ::
  "('a, 'd, 'r) rateLimitingType \<Rightarrow> 'a \<Rightarrow> ('d, 'r) world \<Rightarrow> ('d, 'r) world" where
  "AddRateLimited q item w =
     (let (d, r') = rl_When (rateLimiter q) item (rl_state w)
      in \<lparr>dq_state = di_AddAfter (DelayingInterface q) item d (dq_state w), rl_state = r'\<rparr>)"

text \<open>\<open>return q.rateLimiter.NumRequeues(item)\<close>\<close>

definition NumRequeues ::
  "('a, 'd, 'r) rateLimitingType \<Rightarrow> 'a \<Rightarrow> ('d, 'r) world \<Rightarrow> int" where
  "NumRequeues q item w = rl_NumRequeues (rateLimiter q) item (rl_state w)"

text \<open>\<open>q.rateLimiter.Forget(item)\<close>\<close>

definition Forget ::
  "('a, 'd, 'r) rateLimitingType \<Rightarrow> 'a \<Rightarrow> ('d, 'r) world \<Rightarrow> ('d, 'r) world" where
  "Forget q item w = w\<lparr>rl_state := rl_Forget (rateLimiter q) item (rl_state w)\<rparr>"

subsection \<open>Calls and their outcomes\<close>

text \<open>The method set of a delaying queue, and what a call of one of them yields.\<close>

datatype 'a queue_call =
    QAdd 'a | QLen | QGet | QDone 'a | QShutDown | QShutDownWithDrain | QShuttingDown
  | QAddAfter 'a duration

datatype 'a outcome =
  Returns | ReturnsItem 'a bool | ReturnsInt int | ReturnsBool bool | Blocks

text \<open>A call made directly on a delaying queue \<open>di\<close> whose object is in state \<open>s\<close>.\<close>

fun di_call :: "('a, 'd) DelayingInterface \<Rightarrow> 'a queue_call \<Rightarrow> 'd \<Rightarrow> 'a outcome \<times> 'd" where
  "di_call di (QAdd x) s = (Returns, di_Add di x s)"
| "di_call di QLen s = (ReturnsInt (di_Len di s), s)"
| "di_call di QGet s =
     (case di_Get di s of
        None \<Rightarrow> (Blocks, s)
      | Some ((x, shutdown), s') \<Rightarrow> (ReturnsItem x shutdown, s'))"
| "di_call di (QDone x) s = (Returns, di_Done di x s)"
| "di_call di QShutDown s = (Returns, di_ShutDown di s)"
| "di_call di QShutDownWithDrain s = (Returns, di_ShutDownWithDrain di s)"
| "di_call di QShuttingDown s = (ReturnsBool (di_ShuttingDown di s), s)"
| "di_call di (QAddAfter x d) s = (Returns, di_AddAfter di x d s)"

text \<open>
  The method set of \<open>*rateLimitingType\<close>: the three methods the file declares on it, and
  the methods of the embedded field, which Go promotes to the struct since the struct
  declares none of the same name.
\<close>

datatype 'a call =
  Promoted "'a queue_call" | CallAddRateLimited 'a | CallForget 'a | CallNumRequeues 'a

fun invoke ::
  "('a, 'd, 'r) rateLimitingType \<Rightarrow> 'a call \<Rightarrow> ('d, 'r) world \<Rightarrow> 'a outcome \<times> ('d, 'r) world" where
  "invoke q (CallAddRateLimited x) w = (Returns, AddRateLimited q x w)"
| "invoke q (CallForget x) w = (Returns, Forget q x w)"
| "invoke q (CallNumRequeues x) w = (ReturnsInt (NumRequeues q x w), w)"
| "invoke q (Promoted c) w =
     (let (res, s') = di_call (DelayingInterface q) c (dq_state w)
      in (res, w\<lparr>dq_state := s'\<rparr>))"

text \<open>A history of calls, one after the other; a call that blocks leaves the state as it is.\<close>

fun run ::
  "('a, 'd, 'r) rateLimitingType \<Rightarrow> 'a call list \<Rightarrow> ('d, 'r) world \<Rightarrow> ('d, 'r) world" where
  "run q [] w = w"
| "run q (c # cs) w = run q cs (snd (invoke q c w))"

subsection \<open>Instrumented collaborators\<close>

text \<open>
  A limiter that counts the calls of its \<open>When\<close>, and a queue that records the arguments
  of every \<open>AddAfter\<close>, each wrapped around an arbitrary implementation. They make the
  number of calls the adapter issues visible in the state.
\<close>

definition counted :: "('a, 'r) RateLimiter \<Rightarrow> ('a, 'r \<times> nat) RateLimiter" where
  "counted rl =
     \<lparr>rl_When = (\<lambda>x (r, n). let (d, r') = rl_When rl x r in (d, (r', Suc n))),
      rl_Forget = (\<lambda>x (r, n). (rl_Forget rl x r, n)),
      rl_NumRequeues = (\<lambda>x (r, n). rl_NumRequeues rl x r)\<rparr>"

definition logged ::
  "('a, 'd) DelayingInterface \<Rightarrow> ('a, 'd \<times> ('a \<times> duration) list) DelayingInterface" where
  "logged di =
     \<lparr>di_Add = (\<lambda>x (s, l). (di_Add di x s, l)),
      di_Len = (\<lambda>(s, l). di_Len di s),
      di_Get = (\<lambda>(s, l). map_option (\<lambda>(res, s'). (res, (s', l))) (di_Get di s)),
      di_Done = (\<lambda>x (s, l). (di_Done di x s, l)),
      di_ShutDown = (\<lambda>(s, l). (di_ShutDown di s, l)),
      di_ShutDownWithDrain = (\<lambda>(s, l). (di_ShutDownWithDrain di s, l)),
      di_ShuttingDown = (\<lambda>(s, l). di_ShuttingDown di s),
      di_AddAfter = (\<lambda>x d (s, l). (di_AddAfter di x d s, l @ [(x, d)]))\<rparr>"

subsection \<open>Construction\<close>

text \<open>
  \<open>clock.WithTicker\<close> is an interface of another module: a value of it is
  \<open>clock.RealClock{}\<close> or some other implementation, such as a fake clock of a test.
\<close>

datatype 'c WithTicker = RealClock | OtherClock 'c

text \<open>
  \<open>RateLimitingQueueConfig\<close>. The three interface-typed fields may be \<open>nil\<close> (\<open>None\<close>);
  the zero value of the struct has the empty name and \<open>nil\<close> in each of them.
\<close>

record ('a, 'd, 'm, 'c) RateLimitingQueueConfig =
  Name :: string
  MetricsProvider :: "'m option"
  Clock :: "'c WithTicker option"
  DelayingQueue :: "('a, 'd) DelayingInterface option"

definition zeroConfig :: "('a, 'd, 'm, 'c) RateLimitingQueueConfig" where
  "zeroConfig = \<lparr>Name = [], MetricsProvider = None, Clock = None, DelayingQueue = None\<rparr>"

text \<open>
  Modelled from the spec: \<open>DelayingQueueConfig\<close>, the argument of
  \<open>NewDelayingQueueWithConfig\<close>, with the three fields the source fills in. The
  constructor of the default delaying queue is not in this file: it is the parameter
  \<open>newDelayingQueue\<close> of the constructors below.
\<close>

record ('m, 'c) DelayingQueueConfig =
  dqc_Name :: string
  dqc_MetricsProvider :: "'m option"
  dqc_Clock :: "'c WithTicker option"

text \<open>
  \<open>NewRateLimitingQueueWithConfig\<close>: a \<open>nil\<close> clock is replaced by \<open>clock.RealClock{}\<close>
  in the local copy of the config, then a \<open>nil\<close> delaying queue by a new one built from
  the name, the metrics provider and the clock of that copy. The limiter is stored as
  given; the source does not test it.
\<close>

definition NewRateLimitingQueueWithConfig ::
  "(('m, 'c) DelayingQueueConfig \<Rightarrow> ('a, 'd) DelayingInterface) \<Rightarrow> ('a, 'r) RateLimiter \<Rightarrow>
   ('a, 'd, 'm, 'c) RateLimitingQueueConfig \<Rightarrow> ('a, 'd, 'r) rateLimitingType" where
  "NewRateLimitingQueueWithConfig newDelayingQueue limiter config =
     (let config1 = (if Clock config = None then config\<lparr>Clock := Some RealClock\<rparr> else config);
          delayingQueue =
            (case DelayingQueue config1 of
               None \<Rightarrow> newDelayingQueue
                 \<lparr>dqc_Name = Name config1,
                  dqc_MetricsProvider = MetricsProvider config1,
                  dqc_Clock = Clock config1\<rparr>
             | Some di \<Rightarrow> di)
      in \<lparr>DelayingInterface = delayingQueue, rateLimiter = limiter\<rparr>)"

text \<open>\<open>NewRateLimitingQueueWithConfig(rateLimiter, RateLimitingQueueConfig[T]{})\<close>\<close>

definition NewRateLimitingQueue ::
  "(('m, 'c) DelayingQueueConfig \<Rightarrow> ('a, 'd) DelayingInterface) \<Rightarrow> ('a, 'r) RateLimiter \<Rightarrow>
   ('a, 'd, 'r) rateLimitingType" where
  "NewRateLimitingQueue newDelayingQueue limiter =
     NewRateLimitingQueueWithConfig newDelayingQueue limiter zeroConfig"

text \<open>\<open>NewRateLimitingQueueWithConfig(rateLimiter, RateLimitingQueueConfig[T]{Name: name})\<close>\<close>

definition NewNamedRateLimitingQueue ::
  "(('m, 'c) DelayingQueueConfig \<Rightarrow> ('a, 'd) DelayingInterface) \<Rightarrow> ('a, 'r) RateLimiter \<Rightarrow>
   string \<Rightarrow> ('a, 'd, 'r) rateLimitingType" where
  "NewNamedRateLimitingQueue newDelayingQueue limiter name =
     NewRateLimitingQueueWithConfig newDelayingQueue limiter (zeroConfig\<lparr>Name := name\<rparr>)"

text \<open>
  \<open>NewRateLimitingQueueWithConfig(rateLimiter, RateLimitingQueueConfig[T]{DelayingQueue: di})\<close>;
  \<open>di\<close> is an interface value and may itself be \<open>nil\<close>.
\<close>

definition NewRateLimitingQueueWithDelayingInterface ::
  "(('m, 'c) DelayingQueueConfig \<Rightarrow> ('a, 'd) DelayingInterface) \<Rightarrow>
   ('a, 'd) DelayingInterface option \<Rightarrow> ('a, 'r) RateLimiter \<Rightarrow> ('a, 'd, 'r) rateLimitingType" where
  "NewRateLimitingQueueWithDelayingInterface newDelayingQueue di limiter =
     NewRateLimitingQueueWithConfig newDelayingQueue limiter (zeroConfig\<lparr>DelayingQueue := di\<rparr>)"

subsection \<open>A counting strategy\<close>

text \<open>
  Modelled from the spec: the counting rate limiter of the spec's end-to-end scenario.
  It keeps a count per item; \<open>When\<close> adds one to the item's count and returns that count
  in seconds, \<open>NumRequeues\<close> reports the count, \<open>Forget\<close> puts it back to 0.
\<close>

definition second :: duration where
  "second = 1000000000"

definition counting_limiter :: "('a, 'a \<Rightarrow> int) RateLimiter" where
  "counting_limiter =
     \<lparr>rl_When = (\<lambda>x r. ((r x + 1) * second, r(x := r x + 1))),
      rl_Forget = (\<lambda>x r. r(x := 0)),
      rl_NumRequeues = (\<lambda>x r. r x)\<rparr>"

definition no_failures :: "'a \<Rightarrow> int" where
  "no_failures = (\<lambda>x. 0)"

text \<open>
  A strategy that increments the per-item count once per \<open>When\<close> call:
  \<open>When(y)\<close> adds one to the count reported for \<open>y\<close> and leaves the count of every
  other item alone, and \<open>Forget(y)\<close> leaves the count of every other item alone.
\<close>

definition counts_per_item :: "('a, 'r) RateLimiter \<Rightarrow> bool" where
  "counts_per_item rl \<longleftrightarrow>
     (\<forall>x y r. rl_NumRequeues rl x (snd (rl_When rl y r)) =
                rl_NumRequeues rl x r + (if x = y then 1 else 0)) \<and>
     (\<forall>x y r. x \<noteq> y \<longrightarrow> rl_NumRequeues rl x (rl_Forget rl y r) = rl_NumRequeues rl x r)"

subsection \<open>A delaying queue on a deterministic clock\<close>

text \<open>
  Modelled from the spec: the delaying queue, whose implementation is not in this file.
  It is a queue of unique items, first in first out; \<open>Add\<close> makes an item visible at
  once unless it is visible already; \<open>AddAfter(item, d)\<close> makes it visible once \<open>d\<close> has
  elapsed and behaves like \<open>Add\<close> for \<open>d \<le> 0\<close>; an item scheduled twice keeps the
  earlier time; \<open>Get\<close> hands out the first visible item and marks it as being processed,
  blocks while the queue is empty, and reports the shutdown once the queue is empty and
  shut down; \<open>Done\<close> ends the processing of an item; after \<open>ShutDown\<close> every add is
  dropped. The clock is the injected one: \<open>now\<close> is its reading, and time passes only
  through \<open>elapse\<close>. The spec gives \<open>ShutDownWithDrain\<close> by name only, so the method
  table takes it as a parameter, as it takes the zero value of the item type.
\<close>

record 'a delaying =
  now :: int
  pending :: "'a list"
  scheduled :: "('a \<times> int) list"
  processing :: "'a set"
  shuttingDown :: bool

text \<open>Modelled from the spec: \<open>Add\<close>, dropped after shutdown and for an item already visible.\<close>

definition sdq_Add :: "'a \<Rightarrow> 'a delaying \<Rightarrow> 'a delaying" where
  "sdq_Add x s =
     (if shuttingDown s \<or> x \<in> set (pending s) then s else s\<lparr>pending := pending s @ [x]\<rparr>)"

text \<open>Modelled from the spec: \<open>Len\<close>, the number of visible items.\<close>

definition sdq_Len :: "'a delaying \<Rightarrow> int" where
  "sdq_Len s = int (length (pending s))"

text \<open>Modelled from the spec: \<open>Get\<close>, which returns the item and the shutdown flag.\<close>

definition sdq_Get :: "'a \<Rightarrow> 'a delaying \<Rightarrow> (('a \<times> bool) \<times> 'a delaying) option" where
  "sdq_Get zero s =
     (case pending s of
        [] \<Rightarrow> if shuttingDown s then Some ((zero, True), s) else None
      | x # xs \<Rightarrow> Some ((x, False), s\<lparr>pending := xs, processing := insert x (processing s)\<rparr>))"

text \<open>Modelled from the spec: \<open>Done\<close>.\<close>

definition sdq_Done :: "'a \<Rightarrow> 'a delaying \<Rightarrow> 'a delaying" where
  "sdq_Done x s = s\<lparr>processing := processing s - {x}\<rparr>"

text \<open>Modelled from the spec: \<open>ShutDown\<close>.\<close>

definition sdq_ShutDown :: "'a delaying \<Rightarrow> 'a delaying" where
  "sdq_ShutDown s = s\<lparr>shuttingDown := True\<rparr>"

text \<open>Modelled from the spec: one entry per scheduled item, the earlier time kept.\<close>

definition schedule :: "'a \<Rightarrow> int \<Rightarrow> ('a \<times> int) list \<Rightarrow> ('a \<times> int) list" where
  "schedule x at sch =
     (if x \<in> fst ` set sch
      then map (\<lambda>(y, t). if y = x then (y, min t at) else (y, t)) sch
      else sch @ [(x, at)])"

text \<open>Modelled from the spec: \<open>AddAfter\<close>.\<close>

definition sdq_AddAfter :: "'a \<Rightarrow> duration \<Rightarrow> 'a delaying \<Rightarrow> 'a delaying" where
  "sdq_AddAfter x d s =
     (if shuttingDown s then s
      else if d \<le> 0 then sdq_Add x s
      else s\<lparr>scheduled := schedule x (now s + d) (scheduled s)\<rparr>)"

text \<open>Modelled from the spec: the method table of this delaying queue.\<close>

definition spec_queue ::
  "'a \<Rightarrow> ('a delaying \<Rightarrow> 'a delaying) \<Rightarrow> ('a, 'a delaying) DelayingInterface" where
  "spec_queue zero drain =
     \<lparr>di_Add = sdq_Add, di_Len = sdq_Len, di_Get = sdq_Get zero, di_Done = sdq_Done,
      di_ShutDown = sdq_ShutDown, di_ShutDownWithDrain = drain,
      di_ShuttingDown = shuttingDown, di_AddAfter = sdq_AddAfter\<rparr>"




definition empty_queue :: "'a delaying" where
  "empty_queue = \<lparr>now = 0, pending = [], scheduled = [], processing = {}, shuttingDown = False\<rparr>"

text \<open>A queue of numbered items over the two modelled collaborators, with nothing in it.\<close>

definition example_queue :: "(nat, nat delaying, nat \<Rightarrow> int) rateLimitingType" where
  "example_queue =
     \<lparr>DelayingInterface = spec_queue 0 sdq_ShutDown, rateLimiter = counting_limiter\<rparr>"

definition fresh_world :: "(nat delaying, nat \<Rightarrow> int) world" where
  "fresh_world = \<lparr>dq_state = empty_queue, rl_state = no_failures\<rparr>"

section \<open>Properties of the adapter\<close>

text \<open>
  C1. \<open>AddRateLimited(item)\<close> asks the limiter's \<open>When(item)\<close> once and hands the duration
  it returned to the queue's \<open>AddAfter(item, d)\<close>; the resulting state is exactly the
  limiter after that one \<open>When\<close> and the queue after that one \<open>AddAfter\<close>. With the
  instrumented collaborators the count of \<open>When\<close> calls grows by one and the log of
  \<open>AddAfter\<close> calls by the single entry \<open>(item, d)\<close>.
\<close>

theorem AddRateLimited_When_once_then_AddAfter:
  "AddRateLimited q item w =
     \<lparr>dq_state = di_AddAfter (DelayingInterface q) item
                   (fst (rl_When (rateLimiter q) item (rl_state w))) (dq_state w),
      rl_state = snd (rl_When (rateLimiter q) item (rl_state w))\<rparr>
   \<and> AddRateLimited \<lparr>DelayingInterface = logged di, rateLimiter = counted rl\<rparr> item
        \<lparr>dq_state = (s, l), rl_state = (r, n)\<rparr> =
     \<lparr>dq_state = (di_AddAfter di item (fst (rl_When rl item r)) s,
                  l @ [(item, fst (rl_When rl item r))]),
      rl_state = (snd (rl_When rl item r), Suc n)\<rparr>"
  by (simp add: AddRateLimited_def counted_def logged_def split_beta)

text \<open>
  C2. \<open>NumRequeues(item)\<close> returns the value the limiter reports for the item in its
  current state. The result does not depend on the state of the queue, the adapter
  having no counter of its own, and the call leaves the state of both collaborators as
  it found it.
\<close>

theorem NumRequeues_is_limiter_report:
  "NumRequeues q item w = rl_NumRequeues (rateLimiter q) item (rl_state w)
   \<and> NumRequeues q item (w\<lparr>dq_state := s\<rparr>) = NumRequeues q item w
   \<and> invoke q (CallNumRequeues item) w =
       (ReturnsInt (rl_NumRequeues (rateLimiter q) item (rl_state w)), w)"
  by (simp add: NumRequeues_def)

text \<open>
  C3. The baseline of a strategy for \<open>x\<close> is the value \<open>b\<close> its \<open>NumRequeues(x)\<close>
  reports after its own \<open>Forget(x)\<close>, whatever it counted before. For a strategy with
  baseline \<open>b\<close>, after any history of calls on the adapter, \<open>NumRequeues(x)\<close> right after
  \<open>Forget(x)\<close> returns \<open>b\<close>.
\<close>

theorem Forget_resets_to_baseline:
  assumes "\<forall>r. rl_NumRequeues (rateLimiter q) x (rl_Forget (rateLimiter q) x r) = b"
  shows "NumRequeues q x (Forget q x (run q history w)) = b"
  using assms by (simp add: NumRequeues_def Forget_def)

text \<open>
  The counting strategy has baseline 0: three failures of item 7 are counted, and
  forgotten by \<open>Forget\<close>.
\<close>

theorem Forget_resets_to_baseline_witness:
  "NumRequeues example_queue 7
     (run example_queue [CallAddRateLimited 7, CallAddRateLimited 7, CallAddRateLimited 7]
        fresh_world) = 3
   \<and> NumRequeues example_queue 7
       (Forget example_queue 7
          (run example_queue [CallAddRateLimited 7, CallAddRateLimited 7, CallAddRateLimited 7]
             fresh_world)) = 0"
proof -
  have h: "\<forall>r. rl_NumRequeues (rateLimiter example_queue) 7
                 (rl_Forget (rateLimiter example_queue) 7 r) = 0"
    by (simp add: example_queue_def counting_limiter_def)
  have "NumRequeues example_queue 7
     (run example_queue [CallAddRateLimited 7, CallAddRateLimited 7, CallAddRateLimited 7]
        fresh_world) = 3"
    by (simp add: example_queue_def fresh_world_def counting_limiter_def no_failures_def
        NumRequeues_def AddRateLimited_def)
  with Forget_resets_to_baseline[OF h,
      of "[CallAddRateLimited 7, CallAddRateLimited 7, CallAddRateLimited 7]" fresh_world]
  show ?thesis by simp
qed

text \<open>
  C4. A call of \<open>Add\<close>, \<open>AddAfter\<close>, \<open>Get\<close>, \<open>Done\<close>, \<open>Len\<close>, \<open>ShutDown\<close>,
  \<open>ShutDownWithDrain\<close> or \<open>ShuttingDown\<close> on the rate-limiting queue has the outcome of
  the same call made directly on the embedded delaying queue and changes the state of
  that queue in the same way; the state of the limiter stays as it is.
\<close>

theorem promoted_calls_pass_through:
  "invoke q (Promoted c) w =
     (fst (di_call (DelayingInterface q) c (dq_state w)),
      \<lparr>dq_state = snd (di_call (DelayingInterface q) c (dq_state w)),
       rl_state = rl_state w\<rparr>)"
  by (simp add: split_beta)

subsection \<open>The delaying queue on its clock\<close>










subsection \<open>Counting the failures\<close>

lemma NumRequeues_step:
  assumes "counts_per_item (rateLimiter q)" and "c \<noteq> CallForget x"
  shows "NumRequeues q x (snd (invoke q c w)) =
         NumRequeues q x w + (if c = CallAddRateLimited x then 1 else 0)"
proof (cases c)
  case (Promoted p)
  then show ?thesis by (simp add: NumRequeues_def split_beta)
next
  case (CallAddRateLimited y)
  with assms(1) show ?thesis
    by (auto simp add: NumRequeues_def AddRateLimited_def counts_per_item_def split_beta)
next
  case (CallForget y)
  with assms show ?thesis
    by (auto simp add: NumRequeues_def Forget_def counts_per_item_def)
next
  case (CallNumRequeues y)
  then show ?thesis by simp
qed

lemma NumRequeues_run:
  assumes "counts_per_item (rateLimiter q)" and "CallForget x \<notin> set history"
  shows "NumRequeues q x (run q history w) =
         NumRequeues q x w + int (count_list history (CallAddRateLimited x))"
  using assms(2)
proof (induction history arbitrary: w)
  case Nil
  then show ?case by simp
next
  case (Cons c cs)
  then have "c \<noteq> CallForget x" and "CallForget x \<notin> set cs" by auto
  with Cons.IH[of "snd (invoke q c w)"] NumRequeues_step[OF assms(1), of c x w]
  show ?case by simp
qed

lemma count_list_replicate_same: "count_list (replicate n c) c = n"
  by (induction n) simp_all

text \<open>
  C6. Under a strategy that counts per item, once per \<open>When\<close> call, and from a state in
  which the count of \<open>x\<close> is 0 (a fresh item, or one just forgotten): \<open>n\<close> calls of
  \<open>AddRateLimited(x)\<close> in a row give \<open>NumRequeues(x) = n\<close>, and after any history of
  calls without a \<open>Forget(x)\<close> the count is the number of \<open>AddRateLimited(x)\<close> calls in it.
\<close>

theorem NumRequeues_counts_AddRateLimited:
  assumes "counts_per_item (rateLimiter q)" and "NumRequeues q x w = 0"
    and "CallForget x \<notin> set history"
  shows "NumRequeues q x (run q (replicate n (CallAddRateLimited x)) w) = int n
         \<and> NumRequeues q x (run q history w) = int (count_list history (CallAddRateLimited x))"
  using NumRequeues_run[OF assms(1), of x "replicate n (CallAddRateLimited x)" w]
    NumRequeues_run[OF assms(1) assms(3), of w] assms(2)
  by (simp add: count_list_replicate_same)

theorem NumRequeues_counts_AddRateLimited_witness:
  "NumRequeues example_queue 7
     (run example_queue (replicate 3 (CallAddRateLimited 7)) fresh_world) = 3
   \<and> NumRequeues example_queue 7
       (run example_queue
          [CallAddRateLimited 7, Promoted (QAdd 3), CallAddRateLimited 3, CallForget 3,
           CallAddRateLimited 7, Promoted QGet, CallNumRequeues 7]
          fresh_world) = 2"
proof -
  have h1: "counts_per_item (rateLimiter example_queue)"
    by (simp add: example_queue_def counts_per_item_def counting_limiter_def)
  have h2: "NumRequeues example_queue 7 fresh_world = 0"
    by (simp add: example_queue_def fresh_world_def counting_limiter_def no_failures_def
        NumRequeues_def)
  have h3: "CallForget 7 \<notin> set [CallAddRateLimited 7, Promoted (QAdd 3), CallAddRateLimited 3,
      CallForget 3, CallAddRateLimited 7, Promoted QGet, CallNumRequeues (7::nat)]"
    by simp
  from NumRequeues_counts_AddRateLimited[OF h1 h2 h3, of 3] show ?thesis by simp
qed



text \<open>
  C8. \<open>Forget(item)\<close> changes the state of the limiter by the limiter's own
  \<open>Forget(item)\<close> and nothing else: the state of the delaying queue is the same after the
  call, and so is the outcome of every call on the queue.
\<close>

theorem Forget_leaves_queue:
  "Forget q item w =
     \<lparr>dq_state = dq_state w, rl_state = rl_Forget (rateLimiter q) item (rl_state w)\<rparr>
   \<and> di_call (DelayingInterface q) c (dq_state (Forget q item w)) =
       di_call (DelayingInterface q) c (dq_state w)"
  by (simp add: Forget_def)

subsection \<open>Construction\<close>

text \<open>
  C9. \<open>NewRateLimitingQueueWithConfig\<close> stores the limiter it is given. A delaying queue
  in the config is used as it is. Without one, the queue is the default one built from
  the config's name and metrics provider and from the config's clock, or the real clock
  when the config has none.
\<close>

theorem NewRateLimitingQueueWithConfig_defaults:
  "rateLimiter (NewRateLimitingQueueWithConfig newDQ rl config) = rl
   \<and> (\<forall>di. DelayingQueue config = Some di \<longrightarrow>
         DelayingInterface (NewRateLimitingQueueWithConfig newDQ rl config) = di)
   \<and> (DelayingQueue config = None \<longrightarrow>
         DelayingInterface (NewRateLimitingQueueWithConfig newDQ rl config) =
           newDQ \<lparr>dqc_Name = Name config, dqc_MetricsProvider = MetricsProvider config,
                  dqc_Clock = Some (case Clock config of None \<Rightarrow> RealClock | Some c \<Rightarrow> c)\<rparr>)"
  by (auto simp add: NewRateLimitingQueueWithConfig_def Let_def split: option.splits)

theorem NewRateLimitingQueueWithConfig_defaults_witness:
  "DelayingQueue
     (zeroConfig\<lparr>Name := ''pods''\<rparr> :: (nat, nat delaying, unit, unit) RateLimitingQueueConfig) =
     None
   \<and> DelayingInterface
        (NewRateLimitingQueueWithConfig (\<lambda>c. spec_queue (length (dqc_Name c)) sdq_ShutDown)
           (counting_limiter :: (nat, nat \<Rightarrow> int) RateLimiter)
           (zeroConfig\<lparr>Name := ''pods''\<rparr>
              :: (nat, nat delaying, unit, unit) RateLimitingQueueConfig)) =
      (\<lambda>c. spec_queue (length (dqc_Name c)) sdq_ShutDown)
        \<lparr>dqc_Name = ''pods'', dqc_MetricsProvider = (None :: unit option),
         dqc_Clock = Some (RealClock :: unit WithTicker)\<rparr>
   \<and> DelayingInterface
        (NewRateLimitingQueueWithConfig (\<lambda>c. spec_queue (length (dqc_Name c)) sdq_ShutDown)
           (counting_limiter :: (nat, nat \<Rightarrow> int) RateLimiter)
           (zeroConfig\<lparr>DelayingQueue := Some (spec_queue 9 sdq_ShutDown)\<rparr>
              :: (nat, nat delaying, unit, unit) RateLimitingQueueConfig)) =
      spec_queue 9 sdq_ShutDown"
  using NewRateLimitingQueueWithConfig_defaults
      [of "\<lambda>c. spec_queue (length (dqc_Name c)) sdq_ShutDown"
          "counting_limiter :: (nat, nat \<Rightarrow> int) RateLimiter"
          "zeroConfig\<lparr>Name := ''pods''\<rparr>
             :: (nat, nat delaying, unit, unit) RateLimitingQueueConfig"]
    NewRateLimitingQueueWithConfig_defaults
      [of "\<lambda>c. spec_queue (length (dqc_Name c)) sdq_ShutDown"
          "counting_limiter :: (nat, nat \<Rightarrow> int) RateLimiter"
          "zeroConfig\<lparr>DelayingQueue := Some (spec_queue 9 sdq_ShutDown)\<rparr>
             :: (nat, nat delaying, unit, unit) RateLimitingQueueConfig"]
  by (simp add: zeroConfig_def)

text \<open>
  C10. Each convenience constructor is \<open>NewRateLimitingQueueWithConfig\<close> on a config
  written out in full: \<open>NewRateLimitingQueue\<close> on the empty config,
  \<open>NewNamedRateLimitingQueue\<close> on the config with the name and nothing else,
  \<open>NewRateLimitingQueueWithDelayingInterface\<close> on the config with the delaying queue and
  nothing else.
\<close>

theorem convenience_constructors:
  "NewRateLimitingQueue newDQ rl =
     NewRateLimitingQueueWithConfig newDQ rl
       \<lparr>Name = [], MetricsProvider = None, Clock = None, DelayingQueue = None\<rparr>
   \<and> NewNamedRateLimitingQueue newDQ rl name =
     NewRateLimitingQueueWithConfig newDQ rl
       \<lparr>Name = name, MetricsProvider = None, Clock = None, DelayingQueue = None\<rparr>
   \<and> NewRateLimitingQueueWithDelayingInterface newDQ di rl =
     NewRateLimitingQueueWithConfig newDQ rl
       \<lparr>Name = [], MetricsProvider = None, Clock = None, DelayingQueue = di\<rparr>"
  by (simp add: NewRateLimitingQueue_def NewNamedRateLimitingQueue_def
      NewRateLimitingQueueWithDelayingInterface_def zeroConfig_def)

end
